theory Spec2Isabelle
  imports Complex_Main "HOL-Library.AList"
begin

section \<open>Grid-trading parameter calculator (main.py)\<close>

text \<open>
  A shallow embedding of \<^verbatim>\<open>calculate_grid_parameters\<close> and
  \<^verbatim>\<open>optimize_grid_for_period\<close>.

  Numbers. The prices and cost parameters the program receives are finite binary floats;
  in the two functions they are modelled as \<^typ>\<open>real\<close>, so rounding and overflow
  are left out there. What is kept is the part of float arithmetic that decides the
  control flow and the error behaviour: a numpy float divided by zero does not raise, it
  yields an infinity or NaN (with a warning on stderr). Values that can leave the finite
  range are therefore of type \<open>npfloat\<close>. Negative zero is not modelled; every zero
  divisor in the program is a non-negative zero (an integer 0, a square root, a price).

  Where rounding decides a property, the code is given a second time with the arithmetic
  made explicit: the selection loop of the optimizer is stated over an arbitrary profit
  value per candidate (\<open>search_step_with\<close>, \<open>best_candidate\<close>), and the two lines that
  select the price range over a rounding function (\<open>price_range_with\<close>), with the
  rounding of IEEE doubles (\<open>fl\<close>) as the instance the program runs.

  Integers. The trade volume and the periods are Python integers of any size. One that
  no double can hold makes lines 65 to 67 raise \<^verbatim>\<open>OverflowError\<close> when it meets a
  float; the two functions below have no such exit and describe the calls whose integer
  arguments are within the range of a double (\<open>int_in_double_range\<close>).
\<close>

subsection \<open>Floats with infinities and NaN\<close>

datatype npfloat = Fin real | PInf | NInf | NaN

fun np_neg :: "npfloat \<Rightarrow> npfloat" where
  "np_neg (Fin a) = Fin (- a)"
| "np_neg PInf = NInf"
| "np_neg NInf = PInf"
| "np_neg NaN = NaN"

fun np_add :: "npfloat \<Rightarrow> npfloat \<Rightarrow> npfloat" where
  "np_add (Fin a) (Fin b) = Fin (a + b)"
| "np_add NaN _ = NaN"
| "np_add _ NaN = NaN"
| "np_add PInf NInf = NaN"
| "np_add NInf PInf = NaN"
| "np_add PInf _ = PInf"
| "np_add _ PInf = PInf"
| "np_add NInf _ = NInf"
| "np_add _ NInf = NInf"

definition np_sub :: "npfloat \<Rightarrow> npfloat \<Rightarrow> npfloat" where
  "np_sub x y = np_add x (np_neg y)"

text \<open>An infinity with the sign of a real factor; \<open>inf * 0\<close> is NaN.\<close>

definition signed_inf :: "real \<Rightarrow> npfloat" where
  "signed_inf s = (if 0 < s then PInf else if s < 0 then NInf else NaN)"

fun np_mul :: "npfloat \<Rightarrow> npfloat \<Rightarrow> npfloat" where
  "np_mul (Fin a) (Fin b) = Fin (a * b)"
| "np_mul NaN _ = NaN"
| "np_mul _ NaN = NaN"
| "np_mul PInf PInf = PInf"
| "np_mul PInf NInf = NInf"
| "np_mul NInf PInf = NInf"
| "np_mul NInf NInf = PInf"
| "np_mul PInf (Fin b) = signed_inf b"
| "np_mul NInf (Fin b) = signed_inf (- b)"
| "np_mul (Fin a) PInf = signed_inf a"
| "np_mul (Fin a) NInf = signed_inf (- a)"

text \<open>
  Division as numpy's float64 does it: a finite value over zero is an infinity of the
  dividend's sign, zero over zero is NaN, and nothing raises.
\<close>

fun np_div :: "npfloat \<Rightarrow> npfloat \<Rightarrow> npfloat" where
  "np_div (Fin a) (Fin b) = (if b = 0 then signed_inf a else Fin (a / b))"
| "np_div NaN _ = NaN"
| "np_div _ NaN = NaN"
| "np_div (Fin a) PInf = Fin 0"
| "np_div (Fin a) NInf = Fin 0"
| "np_div PInf (Fin b) = (if 0 \<le> b then PInf else NInf)"
| "np_div NInf (Fin b) = (if 0 \<le> b then NInf else PInf)"
| "np_div PInf _ = NaN"
| "np_div NInf _ = NaN"

fun np_sqrt :: "npfloat \<Rightarrow> npfloat" where
  "np_sqrt (Fin a) = (if 0 \<le> a then Fin (sqrt a) else NaN)"
| "np_sqrt PInf = PInf"
| "np_sqrt NInf = NaN"
| "np_sqrt NaN = NaN"

fun is_finite :: "npfloat \<Rightarrow> bool" where
  "is_finite (Fin a) = True"
| "is_finite PInf = False"
| "is_finite NInf = False"
| "is_finite NaN = False"

definition np_sum :: "npfloat list \<Rightarrow> npfloat" where
  "np_sum xs = foldl np_add (Fin 0) xs"

subsection \<open>The pandas and numpy reductions the calculator calls\<close>

text \<open>
  \<^verbatim>\<open>Series.pct_change()\<close>: the first entry has no predecessor and is NaN, every other
  entry is \<open>cur / prev - 1\<close>.
\<close>

fun pct_change :: "real list \<Rightarrow> npfloat list" where
  "pct_change [] = []"
| "pct_change (x # xs) =
     NaN # map2 (\<lambda>prev cur. np_sub (np_div (Fin cur) (Fin prev)) (Fin 1)) (x # xs) xs"

definition dropna :: "npfloat list \<Rightarrow> npfloat list" where
  "dropna xs = filter (\<lambda>v. v \<noteq> NaN) xs"

text \<open>\<^verbatim>\<open>Series.mean()\<close> skips NaN; the mean of no value is NaN.\<close>

definition series_mean :: "npfloat list \<Rightarrow> npfloat" where
  "series_mean xs =
     (let vs = dropna xs
      in if vs = [] then NaN else np_div (np_sum vs) (Fin (real (length vs))))"

text \<open>
  \<^verbatim>\<open>Series.std()\<close>: the sample standard deviation (divisor \<open>n - 1\<close>), NaN for fewer
  than two values.
\<close>

definition series_std :: "npfloat list \<Rightarrow> npfloat" where
  "series_std xs =
     (let vs = dropna xs; n = length vs
      in if n \<le> 1 then NaN
         else let avg = np_div (np_sum vs) (Fin (real n));
                  sqr = map (\<lambda>v. np_mul (np_sub avg v) (np_sub avg v)) vs
              in np_sqrt (np_div (np_sum sqr) (Fin (real (n - 1)))))"

text \<open>
  \<^verbatim>\<open>np.mean\<close> and \<^verbatim>\<open>np.std\<close> (population standard deviation, divisor \<open>N\<close>) of a
  column of finite prices. The calculator calls them on at least 20 values; on the empty
  list, which it never passes, the HOL quotient is 0 where numpy gives NaN.
\<close>

definition np_mean :: "real list \<Rightarrow> real" where
  "np_mean xs = sum_list xs / real (length xs)"

definition np_std :: "real list \<Rightarrow> real" where
  "np_std xs = sqrt (sum_list (map (\<lambda>x. (x - np_mean xs)\<^sup>2) xs) / real (length xs))"

text \<open>
  \<^verbatim>\<open>scipy.stats.norm.ppf(0.05, loc, scale)\<close> is \<open>loc + scale * z\<close> with \<open>z\<close> the
  standard normal 5% quantile, and NaN unless \<open>scale > 0\<close> and \<open>loc\<close> is a number.
  The quantile is the library's constant.
\<close>

definition ndtri_05 :: real where
  "ndtri_05 = - 1.6448536269514722"

fun norm_ppf_05 :: "npfloat \<Rightarrow> npfloat \<Rightarrow> npfloat" where
  "norm_ppf_05 NaN scale = NaN"
| "norm_ppf_05 loc (Fin s) = (if 0 < s then np_add loc (np_mul (Fin s) (Fin ndtri_05)) else NaN)"
| "norm_ppf_05 loc PInf = np_add loc (np_mul PInf (Fin ndtri_05))"
| "norm_ppf_05 loc NInf = NaN"
| "norm_ppf_05 loc NaN = NaN"

subsection \<open>Data\<close>

text \<open>One row of the historical data frame; only these columns are read.\<close>

record bar =
  High :: real
  Low :: real
  Close :: real

text \<open>The dictionary \<^verbatim>\<open>optimize_grid_for_period\<close> returns.\<close>

record grid_strategy =
  grid_count :: nat
  estimated_profit :: real
  grid_size :: npfloat

text \<open>
  The dictionary \<^verbatim>\<open>calculate_grid_parameters\<close> returns.
  \<^verbatim>\<open>period_strategies\<close> is a Python dict: keys in insertion order, an assignment to
  a key already present replaces its value in place. That is \<^const>\<open>AList.update\<close> on
  an association list.
\<close>

record grid_parameters =
  lowest_price :: real
  highest_price :: real
  current_price :: real
  sharpe_ratio :: npfloat
  var_95 :: npfloat
  period_strategies :: "(int \<times> grid_strategy) list"

datatype py_error = ValueError | KeyError

subsection \<open>optimize_grid_for_period\<close>

text \<open>Line 58: the candidate grid counts, a Python \<^verbatim>\<open>range\<close> chosen by the period.\<close>

definition grid_range :: "int \<Rightarrow> nat list" where
  "grid_range period =
     (if period \<le> 30 then [5..<16] else if period \<le> 90 then [10..<26] else [20..<51])"

text \<open>
  Lines 63 to 68: the profit estimate of one candidate. The loop passes grid counts of
  at least 5 only, so the division by the count is an ordinary quotient.
\<close>

definition total_profit :: "real \<Rightarrow> real \<Rightarrow> real \<Rightarrow> real \<Rightarrow> int \<Rightarrow> int \<Rightarrow> nat \<Rightarrow> real" where
  "total_profit lowest highest commission_rate fixed_fee period trade_volume gc =
     (let gsize = (highest - lowest) / real gc;
          transaction_cost =
            (lowest + gsize / 2) * commission_rate * real_of_int trade_volume
              + fixed_fee * real_of_int trade_volume;
          avg_profit_per_trade = gsize * real_of_int trade_volume - transaction_cost;
          estimated_trades = min (real (gc * 2)) (real_of_int period / 7 * 2)
      in avg_profit_per_trade * estimated_trades)"

text \<open>
  Lines 70 to 72: one iteration of the loop on the pair
  \<open>(max_profit, optimal_grid_count)\<close>, given the value \<open>profit gc\<close> that lines 63 to 68
  computed for the candidate. The comparison is the only use the loop makes of that
  value, so this step is the program's whatever the arithmetic that produced it.
\<close>

definition search_step_with :: "(nat \<Rightarrow> real) \<Rightarrow> real \<times> nat \<Rightarrow> nat \<Rightarrow> real \<times> nat" where
  "search_step_with profit st gc = (if profit gc > fst st then (profit gc, gc) else st)"

text \<open>
  Lines 58 to 72: the loop from \<open>max_profit = 0\<close>, \<open>optimal_grid_count = 0\<close> over the
  candidates of the period.
\<close>

definition best_candidate :: "(nat \<Rightarrow> real) \<Rightarrow> int \<Rightarrow> real \<times> nat" where
  "best_candidate profit period = foldl (search_step_with profit) (0, 0) (grid_range period)"

text \<open>The step on the exact profit estimate.\<close>

definition search_step ::
  "real \<Rightarrow> real \<Rightarrow> real \<Rightarrow> real \<Rightarrow> int \<Rightarrow> int \<Rightarrow> real \<times> nat \<Rightarrow> nat \<Rightarrow> real \<times> nat" where
  "search_step lowest highest commission_rate fixed_fee period trade_volume st gc =
     search_step_with (total_profit lowest highest commission_rate fixed_fee period trade_volume)
       st gc"

text \<open>
  The whole function. \<open>avg_amplitude\<close> is a parameter the body never reads. The last
  division is by \<open>optimal_grid_count\<close>, which is still 0 when no candidate beat the
  initial \<open>max_profit = 0\<close>; the dividend is a numpy float (it comes from
  \<^verbatim>\<open>np.mean\<close> and \<^verbatim>\<open>np.std\<close>), so the division yields an infinity or NaN.
\<close>

definition optimize_grid_for_period ::
  "real \<Rightarrow> real \<Rightarrow> real \<Rightarrow> real \<Rightarrow> real \<Rightarrow> int \<Rightarrow> int \<Rightarrow> grid_strategy" where
  "optimize_grid_for_period lowest highest avg_amplitude commission_rate fixed_fee period trade_volume =
     (let st = best_candidate
                 (total_profit lowest highest commission_rate fixed_fee period trade_volume)
                 period
      in \<lparr>grid_count = snd st,
          estimated_profit = fst st,
          grid_size = np_div (Fin (highest - lowest)) (Fin (real (snd st)))\<rparr>)"

subsection \<open>calculate_grid_parameters\<close>

definition risk_free_rate :: real where
  "risk_free_rate = 0.02"

definition risk_multipliers :: "string \<rightharpoonup> real" where
  "risk_multipliers = map_of [(''low'', 1.5), (''medium'', 2), (''high'', 2.5)]"

text \<open>
  The stages of the function body in the order they run, logged so that what has and
  has not been computed when an exception leaves the function can be stated:
  \<open>Statistics\<close> is lines 23 to 35, \<open>RangeSelection\<close> lines 41 and 42,
  \<open>Optimization p\<close> one call of line 46.
\<close>

datatype stage = Statistics | RangeSelection | Optimization int

record run =
  stages :: "stage list"
  outcome :: "py_error + grid_parameters"

text \<open>Lines 44 to 46: the loop filling \<^verbatim>\<open>period_strategies\<close>.\<close>

definition fill_period_strategies ::
  "real \<Rightarrow> real \<Rightarrow> real \<Rightarrow> real \<Rightarrow> real \<Rightarrow> int \<Rightarrow> int list \<Rightarrow> (int \<times> grid_strategy) list" where
  "fill_period_strategies lowest highest avg_amplitude commission_rate fixed_fee trade_volume
       investment_periods =
     foldl (\<lambda>d period.
              AList.update period
                (optimize_grid_for_period lowest highest avg_amplitude commission_rate fixed_fee
                   period trade_volume) d)
       [] investment_periods"

definition calculate_grid_parameters ::
  "bar list \<Rightarrow> int list \<Rightarrow> string \<Rightarrow> real \<Rightarrow> real \<Rightarrow> int \<Rightarrow> run" where
  "calculate_grid_parameters hist_data investment_periods risk_level commission_rate fixed_fee
       trade_volume =
     (if length hist_data < 20 then \<lparr>stages = [], outcome = Inl ValueError\<rparr>
      else
        let close_prices = map Close hist_data;
            returns = dropna (pct_change close_prices);
            mean_price = np_mean close_prices;
            std_price = np_std close_prices;
            avg_amplitude = np_mean (map (\<lambda>b. High b - Low b) hist_data);
            sharpe =
              np_div (np_sub (np_mul (series_mean returns) (Fin 252)) (Fin risk_free_rate))
                (np_mul (series_std returns) (Fin (sqrt 252)));
            var = norm_ppf_05 (series_mean returns) (series_std returns)
        in case risk_multipliers risk_level of
             None \<Rightarrow> \<lparr>stages = [Statistics], outcome = Inl KeyError\<rparr>
           | Some multiplier \<Rightarrow>
               let lowest = mean_price - multiplier * std_price;
                   highest = mean_price + multiplier * std_price
               in \<lparr>stages = Statistics # RangeSelection # map Optimization investment_periods,
                   outcome = Inr
                     \<lparr>lowest_price = lowest,
                      highest_price = highest,
                      current_price = last close_prices,
                      sharpe_ratio = sharpe,
                      var_95 = var,
                      period_strategies =
                        fill_period_strategies lowest highest avg_amplitude commission_rate
                          fixed_fee trade_volume investment_periods\<rparr>\<rparr>)"

subsection \<open>Integers a double can hold\<close>

text \<open>
  An integer of magnitude below \<open>2 ^ 1023\<close> converts to a double, and so does its
  quotient by 7; for such a trade volume and such periods lines 65 to 67 raise nothing.
\<close>

definition int_in_double_range :: "int \<Rightarrow> bool" where
  "int_in_double_range n \<longleftrightarrow> \<bar>n\<bar> < 2 ^ 1023"

subsection \<open>Lines 41 and 42 in double arithmetic\<close>

text \<open>
  Rounding to the nearest double, ties to even: \<open>rne\<close> rounds to the nearest integer,
  \<open>expo\<close> is the exponent of the binade of \<open>x\<close> (held at \<open>-1022\<close> in the subnormal
  range), \<open>ulp\<close> the spacing of the doubles there, 53 bits of precision. Results beyond
  the largest double, which IEEE replaces by an infinity, are not modelled.
\<close>

definition rne :: "real \<Rightarrow> int" where
  "rne y = (let f = \<lfloor>y\<rfloor>; d = y - of_int f
            in if d < 1 / 2 then f else if 1 / 2 < d then f + 1 else if even f then f else f + 1)"

definition expo :: "real \<Rightarrow> int" where
  "expo x = max \<lfloor>log 2 \<bar>x\<bar>\<rfloor> (- 1022)"

definition ulp :: "real \<Rightarrow> real" where
  "ulp x = 2 powr (of_int (expo x) - 52)"

definition fl :: "real \<Rightarrow> real" where
  "fl x = (if x = 0 then 0 else of_int (rne (x / ulp x)) * ulp x)"

text \<open>
  Lines 41 and 42, \<^verbatim>\<open>mean_price - multiplier * std_price\<close> and
  \<^verbatim>\<open>mean_price + multiplier * std_price\<close>, each operation followed by the rounding
  \<open>rnd\<close>. The program runs \<open>price_range_with fl\<close>; the calculator above is
  \<open>price_range_with id\<close>.
\<close>

definition price_range_with :: "(real \<Rightarrow> real) \<Rightarrow> real \<Rightarrow> real \<Rightarrow> real \<Rightarrow> real \<times> real" where
  "price_range_with rnd mean_price std_price multiplier =
     (rnd (mean_price - rnd (multiplier * std_price)),
      rnd (mean_price + rnd (multiplier * std_price)))"

subsection \<open>The profit model in the specification's words\<close>

text \<open>
  Section 4.3 of the specification, one definition per formula, to be compared with
  \<^const>\<open>total_profit\<close>, which follows the Python.
\<close>

definition spec_gridSize :: "real \<Rightarrow> real \<Rightarrow> nat \<Rightarrow> real" where
  "spec_gridSize lowest highest g = (highest - lowest) / real g"

definition spec_transactionCost :: "real \<Rightarrow> real \<Rightarrow> real \<Rightarrow> real \<Rightarrow> int \<Rightarrow> nat \<Rightarrow> real" where
  "spec_transactionCost lowest highest commissionRate fixedFee tradeVolume g =
     (lowest + spec_gridSize lowest highest g / 2) * commissionRate * real_of_int tradeVolume
       + fixedFee * real_of_int tradeVolume"

definition spec_avgProfitPerTrade :: "real \<Rightarrow> real \<Rightarrow> real \<Rightarrow> real \<Rightarrow> int \<Rightarrow> nat \<Rightarrow> real" where
  "spec_avgProfitPerTrade lowest highest commissionRate fixedFee tradeVolume g =
     spec_gridSize lowest highest g * real_of_int tradeVolume
       - spec_transactionCost lowest highest commissionRate fixedFee tradeVolume g"

definition spec_estimatedTrades :: "int \<Rightarrow> nat \<Rightarrow> real" where
  "spec_estimatedTrades horizon g = min (2 * real g) (2 * real_of_int horizon / 7)"

definition spec_totalProfit :: "real \<Rightarrow> real \<Rightarrow> real \<Rightarrow> real \<Rightarrow> int \<Rightarrow> int \<Rightarrow> nat \<Rightarrow> real" where
  "spec_totalProfit lowest highest commissionRate fixedFee horizon tradeVolume g =
     spec_avgProfitPerTrade lowest highest commissionRate fixedFee tradeVolume g
       * spec_estimatedTrades horizon g"

text \<open>
  The keys of a sequence in the order of their first occurrence, each once: the order in
  which a Python dict filled by assignment lists them.
\<close>

fun first_occurrences :: "int list \<Rightarrow> int list" where
  "first_occurrences [] = []"
| "first_occurrences (p # ps) = p # filter (\<lambda>q. q \<noteq> p) (first_occurrences ps)"

subsection \<open>Example price series\<close>

text \<open>
  Twenty daily bars each. \<open>swing_hist\<close> closes alternately at 90 and 110 (mean 100,
  population standard deviation 10); \<open>wide_hist\<close> alternately at 10 and 110 (mean 60,
  standard deviation 50); \<open>flat_hist\<close> closes at 100 every day, so every daily
  return is 0.
\<close>

definition bar_at :: "real \<Rightarrow> bar" where
  "bar_at c = \<lparr>High = c + 1, Low = c - 1, Close = c\<rparr>"

definition swing_hist :: "bar list" where
  "swing_hist = map bar_at
     [90, 110, 90, 110, 90, 110, 90, 110, 90, 110, 90, 110, 90, 110, 90, 110, 90, 110, 90, 110]"



definition flat_hist :: "bar list" where
  "flat_hist = map bar_at
     [100, 100, 100, 100, 100, 100, 100, 100, 100, 100,
      100, 100, 100, 100, 100, 100, 100, 100, 100, 100]"

section \<open>Facts about the model\<close>

subsection \<open>The risk table and the three exits of the calculator\<close>

lemma risk_multipliers_Some:
  "risk_multipliers r = Some m \<longleftrightarrow>
     (r = ''low'' \<and> m = 1.5) \<or> (r = ''medium'' \<and> m = 2) \<or> (r = ''high'' \<and> m = 2.5)"
  by (auto simp: risk_multipliers_def)

lemma risk_multipliers_None:
  "risk_multipliers r = None \<longleftrightarrow> r \<notin> {''low'', ''medium'', ''high''}"
  by (auto simp: risk_multipliers_def)

lemma calc_short:
  "length hist < 20 \<Longrightarrow>
   calculate_grid_parameters hist ps risk cr ff tv = \<lparr>stages = [], outcome = Inl ValueError\<rparr>"
  by (simp add: calculate_grid_parameters_def)

lemma calc_unknown_risk:
  "20 \<le> length hist \<Longrightarrow> risk_multipliers risk = None \<Longrightarrow>
   calculate_grid_parameters hist ps risk cr ff tv =
     \<lparr>stages = [Statistics], outcome = Inl KeyError\<rparr>"
  by (simp add: calculate_grid_parameters_def Let_def)

lemma calc_known_risk:
  assumes "20 \<le> length hist" and "risk_multipliers risk = Some m"
  shows "\<exists>r. calculate_grid_parameters hist ps risk cr ff tv =
            \<lparr>stages = Statistics # RangeSelection # map Optimization ps, outcome = Inr r\<rparr>
         \<and> lowest_price r = np_mean (map Close hist) - m * np_std (map Close hist)
         \<and> highest_price r = np_mean (map Close hist) + m * np_std (map Close hist)
         \<and> current_price r = last (map Close hist)
         \<and> sharpe_ratio r =
             np_div (np_sub (np_mul (series_mean (dropna (pct_change (map Close hist)))) (Fin 252))
                            (Fin risk_free_rate))
                    (np_mul (series_std (dropna (pct_change (map Close hist)))) (Fin (sqrt 252)))
         \<and> period_strategies r =
             fill_period_strategies (np_mean (map Close hist) - m * np_std (map Close hist))
               (np_mean (map Close hist) + m * np_std (map Close hist))
               (np_mean (map (\<lambda>b. High b - Low b) hist)) cr ff tv ps"
  using assms by (simp add: calculate_grid_parameters_def Let_def)

subsection \<open>The example series\<close>



lemma length_swing: "length swing_hist = 20"
  by (simp add: swing_hist_def)








lemma length_flat: "length flat_hist = 20"
  by (simp add: flat_hist_def)

lemma closes_flat:
  "map Close flat_hist =
     [100, 100, 100, 100, 100, 100, 100, 100, 100, 100,
      100, 100, 100, 100, 100, 100, 100, 100, 100, 100]"
  by (simp add: flat_hist_def bar_at_def)

lemma returns_flat:
  "dropna (pct_change (map Close flat_hist)) =
     [Fin 0, Fin 0, Fin 0, Fin 0, Fin 0, Fin 0, Fin 0, Fin 0, Fin 0, Fin 0,
      Fin 0, Fin 0, Fin 0, Fin 0, Fin 0, Fin 0, Fin 0, Fin 0, Fin 0]"
  by (simp add: closes_flat dropna_def np_sub_def)

lemma mean_returns_flat: "series_mean (dropna (pct_change (map Close flat_hist))) = Fin 0"
  by (simp add: series_mean_def returns_flat) (simp add: dropna_def np_sum_def)

lemma std_returns_flat: "series_std (dropna (pct_change (map Close flat_hist))) = Fin 0"
  by (simp add: series_std_def returns_flat) (simp add: dropna_def np_sum_def np_sub_def)

lemma mean_flat: "np_mean (map Close flat_hist) = 100"
  by (simp add: closes_flat np_mean_def)

lemma std_flat: "np_std (map Close flat_hist) = 0"
  by (simp add: closes_flat np_std_def np_mean_def)

lemma amplitude_flat: "np_mean (map (\<lambda>b. High b - Low b) flat_hist) = 2"
  by (simp add: flat_hist_def bar_at_def np_mean_def)

lemma optimize_flat:
  "optimize_grid_for_period 100 100 2 (1 / 1000) 1 30 100 =
     \<lparr>grid_count = 0, estimated_profit = 0, grid_size = NaN\<rparr>"
  by (simp add: optimize_grid_for_period_def best_candidate_def grid_range_def search_step_with_def
      total_profit_def
      signed_inf_def)

subsection \<open>The search loop\<close>

text \<open>
  The loop invariant, stated for the whole run over an ascending candidate list from any
  starting pair: the running maximum never drops below the start, dominates every
  candidate's profit, and either nothing beat the start (the pair is unchanged) or the
  count is the first candidate that attains the maximum.
\<close>

lemma foldl_search_step:
  assumes "sorted_wrt (<) xs"
  shows "m \<le> fst (foldl (search_step_with f) (m, c) xs)
       \<and> (\<forall>g\<in>set xs. f g \<le> fst (foldl (search_step_with f) (m, c) xs))
       \<and> (if fst (foldl (search_step_with f) (m, c) xs) = m
           then snd (foldl (search_step_with f) (m, c) xs) = c
           else snd (foldl (search_step_with f) (m, c) xs) \<in> set xs
              \<and> f (snd (foldl (search_step_with f) (m, c) xs))
                  = fst (foldl (search_step_with f) (m, c) xs)
              \<and> (\<forall>g\<in>set xs. f g = fst (foldl (search_step_with f) (m, c) xs)
                     \<longrightarrow> snd (foldl (search_step_with f) (m, c) xs) \<le> g))"
  using assms
proof (induction xs arbitrary: m c)
  case Nil
  then show ?case by simp
next
  case (Cons g gs)
  let ?step = "search_step_with f"
  have sorted_gs: "sorted_wrt (<) gs" and g_least: "\<forall>x\<in>set gs. g < x"
    using Cons.prems by simp_all
  show ?case
  proof (cases "f g > m")
    case True
    then have step: "?step (m, c) g = (f g, g)"
      by (simp add: search_step_with_def)
    let ?r = "foldl ?step (f g, g) gs"
    note IH = Cons.IH [OF sorted_gs, of "f g" g]
    show ?thesis
    proof (cases "fst ?r = f g")
      case eq: True
      with IH have "snd ?r = g" by simp
      with eq IH True g_least show ?thesis
        by (auto simp: step intro: less_imp_le)
    next
      case neq: False
      with IH have "f g < fst ?r" by (simp add: order.strict_iff_order)
      with neq IH True show ?thesis
        by (auto simp: step)
    qed
  next
    case False
    then have step: "?step (m, c) g = (m, c)"
      by (simp add: search_step_with_def)
    note IH = Cons.IH [OF sorted_gs, of m c]
    from False IH show ?thesis
      by (auto simp: step)
  qed
qed

lemma search_step_eq:
  "search_step lo hi cr ff h tv = search_step_with (total_profit lo hi cr ff h tv)"
  by (intro ext) (simp add: search_step_def)

lemma grid_range_ascending: "sorted_wrt (<) (grid_range h)"
  by (simp del: upt_rec_numeral add: grid_range_def)

lemma grid_range_positive: "g \<in> set (grid_range h) \<Longrightarrow> 0 < g"
  by (auto simp del: upt_rec_numeral simp: grid_range_def split: if_splits)

subsection \<open>The dictionary of per-period results\<close>

lemma first_occurrences_set: "set (first_occurrences ps) = set ps"
  by (induction ps) auto


lemma first_occurrences_snoc:
  "first_occurrences (ps @ [p]) =
     (if p \<in> set ps then first_occurrences ps else first_occurrences ps @ [p])"
  by (induction ps) (auto simp: first_occurrences_set)

lemma fill_snoc:
  "fill_period_strategies lo hi amp cr ff tv (ps @ [p]) =
     AList.update p (optimize_grid_for_period lo hi amp cr ff p tv)
       (fill_period_strategies lo hi amp cr ff tv ps)"
  by (simp add: fill_period_strategies_def)

lemma fill_keys:
  "map fst (fill_period_strategies lo hi amp cr ff tv ps) = first_occurrences ps"
proof (induction ps rule: rev_induct)
  case Nil
  show ?case by (simp add: fill_period_strategies_def)
next
  case (snoc p ps)
  then show ?case
    by (simp add: fill_snoc update_keys first_occurrences_snoc first_occurrences_set)
qed


subsection \<open>Rounding to doubles\<close>













lemma fl_zero: "fl 0 = 0"
  by (simp add: fl_def)






















lemma calc_range_exact:
  assumes "20 \<le> length hist" and "risk_multipliers risk = Some m"
  shows "\<exists>r. outcome (calculate_grid_parameters hist ps risk cr ff tv) = Inr r
           \<and> (lowest_price r, highest_price r) =
               price_range_with id (np_mean (map Close hist)) (np_std (map Close hist)) m"
  using calc_known_risk [OF assms, of ps cr ff tv] by (auto simp: price_range_with_def)

lemma optimize_is_best_candidate:
  "grid_count (optimize_grid_for_period lo hi amp cr ff h tv) =
     snd (best_candidate (total_profit lo hi cr ff h tv) h)"
  "estimated_profit (optimize_grid_for_period lo hi amp cr ff h tv) =
     fst (best_candidate (total_profit lo hi cr ff h tv) h)"
  by (simp_all add: optimize_grid_for_period_def Let_def)

subsection \<open>Division by zero in the two functions\<close>

lemma optimize_without_profit:
  assumes "\<forall>g\<in>set (grid_range h). total_profit lo hi cr ff h tv g \<le> 0"
  shows "optimize_grid_for_period lo hi amp cr ff h tv =
           \<lparr>grid_count = 0, estimated_profit = 0, grid_size = signed_inf (hi - lo)\<rparr>"
proof -
  let ?r = "foldl (search_step_with (total_profit lo hi cr ff h tv)) (0, 0) (grid_range h)"
  note inv = foldl_search_step [OF grid_range_ascending, of 0 "total_profit lo hi cr ff h tv" 0 h]
  have "fst ?r = 0"
  proof (rule ccontr)
    assume ne: "fst ?r \<noteq> 0"
    with inv have "snd ?r \<in> set (grid_range h)"
      and "total_profit lo hi cr ff h tv (snd ?r) = fst ?r" and "0 \<le> fst ?r"
      by simp_all
    with assms ne show False by force
  qed
  with inv have "snd ?r = 0" by simp
  with \<open>fst ?r = 0\<close> show ?thesis
    by (simp add: optimize_grid_for_period_def best_candidate_def)
qed

lemma zero_divisor_not_finite: "\<not> is_finite (np_div x (np_mul (Fin 0) (Fin d)))"
  by (cases x) (simp_all add: signed_inf_def)

lemma zero_volatility_sharpe_not_finite:
  assumes "20 \<le> length hist" and "risk_multipliers risk = Some m"
    and "series_std (dropna (pct_change (map Close hist))) = Fin 0"
  shows "\<exists>r. outcome (calculate_grid_parameters hist ps risk cr ff tv) = Inr r
             \<and> \<not> is_finite (sharpe_ratio r)"
proof -
  from calc_known_risk [OF assms(1,2), of ps cr ff tv] obtain r where
    run: "calculate_grid_parameters hist ps risk cr ff tv =
            \<lparr>stages = Statistics # RangeSelection # map Optimization ps, outcome = Inr r\<rparr>"
    and sharpe: "sharpe_ratio r =
             np_div (np_sub (np_mul (series_mean (dropna (pct_change (map Close hist)))) (Fin 252))
                            (Fin risk_free_rate))
                    (np_mul (series_std (dropna (pct_change (map Close hist)))) (Fin (sqrt 252)))"
    by blast
  from sharpe assms(3) have "\<not> is_finite (sharpe_ratio r)"
    by (simp only: zero_divisor_not_finite not_False_eq_True)
  with run show ?thesis by simp
qed


section \<open>The claims\<close>

text \<open>
  Claim C1: when no candidate grid count of the tier has a total profit above the zero
  baseline, the optimizer must return an explicit \<open>no profitable grid count found\<close>
  outcome, and never a result with \<open>gridCount = 0\<close> whose \<open>gridSize\<close> is the range width
  divided by zero. The function has no such outcome. On the range \<open>[99, 101]\<close> with
  commission rate 0.001, fixed fee 1, trade volume 100 and period 30 no candidate is
  profitable, and it returns \<open>grid_count = 0\<close>, \<open>estimated_profit = 0\<close> and, as
  \<open>grid_size\<close>, the quotient of the width 2 by zero: plus infinity.
\<close>

theorem optimize_unprofitable_range_divides_by_zero:
  "(0::int) < 30 \<and> (99::real) < 101
   \<and> list_all (\<lambda>g. \<not> 0 < total_profit 99 101 0.001 1 30 100 g) (grid_range 30)
   \<and> optimize_grid_for_period 99 101 2 0.001 1 30 100 =
       \<lparr>grid_count = 0, estimated_profit = 0, grid_size = PInf\<rparr>"
  by (simp add: optimize_grid_for_period_def best_candidate_def grid_range_def search_step_with_def
      total_profit_def
      signed_inf_def)

text \<open>
  Claim C2: a series of at least 20 prices whose daily returns have standard deviation
  zero must make the calculator fail, not produce a Sharpe ratio that is infinite or NaN.
  The function has no such check. On twenty bars that all close at 100 every return is 0,
  the Sharpe ratio is \<open>(0 * 252 - 0.02) / (0 * sqrt 252)\<close>, and the function returns
  normally with \<open>sharpe_ratio\<close> minus infinity (and \<open>var_95\<close> NaN, and for the period 30
  the degenerate result of C1, here with \<open>grid_size\<close> NaN, zero over zero).
\<close>

theorem calculate_flat_series_returns_infinite_sharpe:
  "calculate_grid_parameters flat_hist [30] ''medium'' 0.001 1 100 =
     \<lparr>stages = [Statistics, RangeSelection, Optimization 30],
      outcome = Inr \<lparr>lowest_price = 100, highest_price = 100, current_price = 100,
                      sharpe_ratio = NInf, var_95 = NaN,
                      period_strategies =
                        [(30, \<lparr>grid_count = 0, estimated_profit = 0, grid_size = NaN\<rparr>)]\<rparr>\<rparr>"
  by (simp add: calculate_grid_parameters_def Let_def length_flat mean_returns_flat
      std_returns_flat mean_flat std_flat amplitude_flat risk_multipliers_def risk_free_rate_def
      signed_inf_def np_sub_def fill_period_strategies_def optimize_flat)
     (simp add: closes_flat)

theorem unknown_risk_after_statistics_counterexample:
  "20 \<le> length swing_hist \<and> ''extreme'' \<notin> {''low'', ''medium'', ''high''}
   \<and> outcome (calculate_grid_parameters swing_hist [30] ''extreme'' 0.001 1 100) = Inl KeyError
   \<and> Statistics \<in> set (stages (calculate_grid_parameters swing_hist [30] ''extreme'' 0.001 1 100))"
  by (simp add: calc_unknown_risk length_swing risk_multipliers_None)

text \<open>
  Claim C3, as amended: for every series of at least 20 bars and every risk level outside
  \<open>low\<close>, \<open>medium\<close>, \<open>high\<close>, the calculator fails, with the \<open>KeyError\<close> of the multiplier
  lookup on line 39. At that moment the statistics of lines 23 to 35 have been computed;
  the range has not been selected and no period has been optimized. (The claim as written
  puts the failure before the statistics.)
\<close>

theorem unknown_risk_fails_after_statistics:
  assumes "20 \<le> length hist" and "risk \<notin> {''low'', ''medium'', ''high''}"
  shows "calculate_grid_parameters hist ps risk cr ff tv =
           \<lparr>stages = [Statistics], outcome = Inl KeyError\<rparr>"
  using assms by (simp add: calc_unknown_risk risk_multipliers_None)

theorem unknown_risk_fails_after_statistics_witness:
  "20 \<le> length flat_hist \<and> ''MEDIUM'' \<notin> {''low'', ''medium'', ''high''}
   \<and> calculate_grid_parameters flat_hist [30, 90, 180] ''MEDIUM'' 0.001 1 100 =
       \<lparr>stages = [Statistics], outcome = Inl KeyError\<rparr>"
proof -
  have len: "20 \<le> length flat_hist" by (simp add: length_flat)
  have risk: "''MEDIUM'' \<notin> {''low'', ''medium'', ''high''}" by simp
  from unknown_risk_fails_after_statistics [OF len risk] len risk show ?thesis by blast
qed

theorem nonpositive_volume_and_period_counterexample:
  "20 \<le> length swing_hist
   \<and> \<not> isl (outcome (calculate_grid_parameters swing_hist [30] ''medium'' 0.001 1 (- 5)))
   \<and> \<not> isl (outcome (calculate_grid_parameters swing_hist [- 7, 0] ''medium'' 0.001 1 100))
   \<and> stages (calculate_grid_parameters swing_hist [- 7, 0] ''medium'' 0.001 1 100) =
       [Statistics, RangeSelection, Optimization (- 7), Optimization 0]"
proof -
  have len: "20 \<le> length swing_hist" by (simp add: length_swing)
  have risk: "risk_multipliers ''medium'' = Some 2" by (simp add: risk_multipliers_Some)
  from calc_known_risk [OF len risk, of "[30]" "0.001" 1 "- 5"]
    calc_known_risk [OF len risk, of "[- 7, 0]" "0.001" 1 100] len
  show ?thesis by auto
qed

text \<open>
  Claim C4, as amended: a non-positive trade volume or a non-positive period is not
  rejected. For every series of at least 20 bars, every risk level among \<open>low\<close>,
  \<open>medium\<close>, \<open>high\<close>, and every call in which the trade volume is not positive or some
  period is not positive, the trade volume and the periods being integers within the
  range of a double, the calculator runs every stage and returns an aggregate whose
  per-period dictionary has exactly the requested periods as keys. (The claim as written
  requires a validation failure there.)
\<close>

theorem nonpositive_volume_or_period_accepted:
  assumes "20 \<le> length hist" and "risk \<in> {''low'', ''medium'', ''high''}"
    and "tv \<le> 0 \<or> (\<exists>p\<in>set ps. p \<le> 0)"
    and "int_in_double_range tv" and "\<forall>p\<in>set ps. int_in_double_range p"
  shows "\<exists>r. calculate_grid_parameters hist ps risk cr ff tv =
               \<lparr>stages = Statistics # RangeSelection # map Optimization ps, outcome = Inr r\<rparr>
             \<and> set (map fst (period_strategies r)) = set ps"
proof -
  from assms(2) obtain m where "risk_multipliers risk = Some m"
    using risk_multipliers_None [of risk] by fastforce
  from calc_known_risk [OF assms(1) this, of ps cr ff tv] obtain r where
    run: "calculate_grid_parameters hist ps risk cr ff tv =
            \<lparr>stages = Statistics # RangeSelection # map Optimization ps, outcome = Inr r\<rparr>"
    and "map fst (period_strategies r) = first_occurrences ps"
    by (auto simp only: fill_keys)
  then have "set (map fst (period_strategies r)) = set ps"
    by (simp only: first_occurrences_set)
  with run show ?thesis by blast
qed

theorem nonpositive_volume_or_period_accepted_witness:
  "20 \<le> length swing_hist \<and> ''low'' \<in> {''low'', ''medium'', ''high''}
   \<and> ((0::int) \<le> 0 \<or> (\<exists>p\<in>set [0, - 1 :: int]. p \<le> 0))
   \<and> int_in_double_range 0 \<and> list_all int_in_double_range [0, - 1]
   \<and> (\<exists>r. calculate_grid_parameters swing_hist [0, - 1] ''low'' 0.001 1 0 =
            \<lparr>stages = [Statistics, RangeSelection, Optimization 0, Optimization (- 1)],
             outcome = Inr r\<rparr>
          \<and> set (map fst (period_strategies r)) = {0, - 1})"
proof -
  have len: "20 \<le> length swing_hist" by (simp add: length_swing)
  have risk: "''low'' \<in> {''low'', ''medium'', ''high''}" by simp
  have sign: "(0::int) \<le> 0 \<or> (\<exists>p\<in>set [0, - 1 :: int]. p \<le> 0)" by simp
  have vol: "int_in_double_range 0" by (simp add: int_in_double_range_def)
  have per: "\<forall>p\<in>set [0, - 1]. int_in_double_range p" by (simp add: int_in_double_range_def)
  from nonpositive_volume_or_period_accepted [OF len risk sign vol per, of "0.001" 1]
  have "\<exists>r. calculate_grid_parameters swing_hist [0, - 1] ''low'' 0.001 1 0 =
            \<lparr>stages = [Statistics, RangeSelection, Optimization 0, Optimization (- 1)],
             outcome = Inr r\<rparr>
          \<and> set (map fst (period_strategies r)) = {0, - 1}"
    by simp
  with len risk vol show ?thesis
    by (simp add: int_in_double_range_def)
qed

text \<open>
  Claim C5: for every candidate grid count \<open>g\<close> the optimizer's profit estimate is the
  specification's \<open>totalProfit\<close>: \<open>gridSize = (highest - lowest) / g\<close>,
  \<open>transactionCost = (lowest + gridSize / 2) * commissionRate * tradeVolume
  + fixedFee * tradeVolume\<close>, \<open>avgProfitPerTrade = gridSize * tradeVolume - transactionCost\<close>,
  \<open>estimatedTrades = min (2 g) (2 * horizon / 7)\<close> in real division,
  \<open>totalProfit = avgProfitPerTrade * estimatedTrades\<close>; and this is the value one loop
  iteration compares with the running maximum. With bounds \<open>[80, 120]\<close>, \<open>g = 10\<close>,
  commission rate 0.001, fixed fee 1 and trade volume 100: \<open>gridSize = 4\<close>,
  \<open>transactionCost = 108.2\<close>, \<open>avgProfitPerTrade = 291.8\<close>, also in the code's own
  estimate. (Exact arithmetic; binary rounding is not modelled.)
\<close>

theorem total_profit_formula:
  "total_profit lo hi cr ff h tv g = spec_totalProfit lo hi cr ff h tv g
   \<and> search_step lo hi cr ff h tv st g =
       (if spec_totalProfit lo hi cr ff h tv g > fst st
        then (spec_totalProfit lo hi cr ff h tv g, g) else st)
   \<and> spec_gridSize 80 120 10 = 4
   \<and> spec_transactionCost 80 120 0.001 1 100 10 = 108.2
   \<and> spec_avgProfitPerTrade 80 120 0.001 1 100 10 = 291.8
   \<and> total_profit 80 120 0.001 1 h 100 10 = 291.8 * min 20 (2 * real_of_int h / 7)"
proof -
  have eq: "total_profit lo hi cr ff h tv g = spec_totalProfit lo hi cr ff h tv g" for lo hi cr ff h tv g
    by (simp add: total_profit_def spec_totalProfit_def spec_avgProfitPerTrade_def
        spec_transactionCost_def spec_gridSize_def spec_estimatedTrades_def Let_def mult.commute)
  have ex: "spec_gridSize 80 120 10 = 4" "spec_transactionCost 80 120 0.001 1 100 10 = 108.2"
    "spec_avgProfitPerTrade 80 120 0.001 1 100 10 = 291.8"
    by (simp_all add: spec_avgProfitPerTrade_def spec_transactionCost_def spec_gridSize_def)
  have "total_profit 80 120 0.001 1 h 100 10 = 291.8 * min 20 (2 * real_of_int h / 7)"
    unfolding eq
    by (simp add: spec_totalProfit_def spec_estimatedTrades_def spec_avgProfitPerTrade_def
        spec_transactionCost_def spec_gridSize_def)
  with eq ex show ?thesis
    by (simp add: search_step_def search_step_with_def)
qed



text \<open>
  Claim C7: for every period \<open>h\<close> (every positive one in particular) the candidates the
  optimizer's loop runs over, in ascending order, are exactly the inclusive tier
  \<open>{5..15}\<close> when \<open>h \<le> 30\<close>, \<open>{10..25}\<close> when \<open>30 < h \<le> 90\<close>, and \<open>{20..50}\<close> when
  \<open>h > 90\<close>; periods 30, 31, 90 and 91 use \<open>{5..15}\<close>, \<open>{10..25}\<close>, \<open>{10..25}\<close> and
  \<open>{20..50}\<close>.
\<close>

theorem grid_range_tiers:
  "set (grid_range h) = (if h \<le> 30 then {5..15} else if h \<le> 90 then {10..25} else {20..50})
   \<and> sorted_wrt (<) (grid_range h)
   \<and> optimize_grid_for_period lo hi amp cr ff h tv =
       (let st = foldl (search_step lo hi cr ff h tv) (0, 0) (grid_range h)
        in \<lparr>grid_count = snd st, estimated_profit = fst st,
            grid_size = np_div (Fin (hi - lo)) (Fin (real (snd st)))\<rparr>)
   \<and> set (grid_range 30) = {5..15}
   \<and> set (grid_range 31) = {10..25}
   \<and> set (grid_range 90) = {10..25}
   \<and> set (grid_range 91) = {20..50}"
proof -
  have "set (grid_range k) = (if k \<le> 30 then {5..15} else if k \<le> 90 then {10..25} else {20..50})" for k
    by (auto simp del: upt_rec_numeral simp: grid_range_def)
  then show ?thesis
    by (simp add: grid_range_ascending optimize_grid_for_period_def best_candidate_def
        search_step_eq)
qed








end
